theory Spec2Isabelle
  imports Complex_Main "HOL-Library.Sublist" "HOL-Library.AList"
begin

section \<open>AeroShield: claim lifecycle and pool accounting\<close>

text \<open>
  A shallow embedding of the claims engine (\<^verbatim>\<open>services/insurance/claims_engine.py\<close>),
  the pool manager (\<^verbatim>\<open>services/insurance/pool_manager.py\<close>), the polling loop of the
  FDC client (\<^verbatim>\<open>services/blockchain/fdc_client.py\<close>) and the two API handlers that
  touch a claim's verification (\<^verbatim>\<open>api/v1/claims.py\<close>, \<^verbatim>\<open>api/v1/triggers.py\<close>).

  Conventions of the embedding:
  \<^item> the database session is an explicit state \<open>db\<close>; every operation returns the new
    state together with either an error (\<open>Inl\<close>, a raised exception) or its result
    (\<open>Inr\<close>), so a mutation made before a raise stays visible;
  \<^item> the \<open>claims\<close> table is a list of rows keyed by the claim id (the webhook selects
    claims by a column that is not the key); policies and pools are maps keyed by id;
  \<^item> \<open>Decimal\<close> amounts are exact rationals (rounding to the context precision and the
    \<open>float(...)\<close> conversions of the reports are not modelled);
  \<^item> UUIDs are natural numbers; timestamps and log calls are left out;
  \<^item> the external collaborators (FDC hub, verifier API, FTSO feed) are given as the
    outcomes of their calls.
\<close>

subsection \<open>Data model\<close>

type_synonym uuid = nat
type_synonym decimal = rat

datatype ClaimStatus = INITIATED | VERIFYING | APPROVED | REJECTED | PROCESSING | PAID | FAILED

text \<open>\<open>PolicyStatus.PAID\<close> is written \<open>POLICY_PAID\<close>: the name \<open>PAID\<close> is taken by the claim status.\<close>

datatype PolicyStatus =
  PENDING | ACTIVE | EXPIRED | CLAIMED | CANCELLED | PAYOUT_PENDING | POLICY_PAID

datatype PoolTransactionType =
  PREMIUM_DEPOSIT | PAYOUT | LP_STAKE | LP_UNSTAKE | YIELD_DISTRIBUTION
  | COLLATERAL_ADJUSTMENT | FEE_COLLECTION

text \<open>The reasons carried by the \<open>ValueError\<close> and \<open>FDCAttestationError\<close> messages.\<close>

datatype value_error =
  PoolNotFound uuid         \<comment> \<open>\<^verbatim>\<open>f"Pool {pool_id} not found"\<close>\<close>
  | ClaimNotApproved uuid   \<comment> \<open>\<^verbatim>\<open>f"Claim {claim_id} is not approved for payout"\<close>\<close>

datatype fdc_failure =
  SubmissionFailed                 \<comment> \<open>\<^verbatim>\<open>f"Submission failed: {str(e)}"\<close>\<close>
  | StatusCheckFailed              \<comment> \<open>\<^verbatim>\<open>f"Status check failed: {str(e)}"\<close>\<close>
  | RequestFailed string           \<comment> \<open>\<^verbatim>\<open>f"Request {request_id} failed"\<close>\<close>
  | DidNotFinalize string int      \<comment> \<open>\<^verbatim>\<open>f"Request {request_id} did not finalize within {timeout_seconds}s"\<close>\<close>
  | ProofRetrievalFailed           \<comment> \<open>\<^verbatim>\<open>f"Proof retrieval failed: {str(e)}"\<close>\<close>

datatype http_detail =
  UserNotFound                               \<comment> \<open>\<^verbatim>\<open>"User not found"\<close>\<close>
  | ClaimNotFound                            \<comment> \<open>\<^verbatim>\<open>"Claim not found"\<close>\<close>
  | CannotVerifyClaimWithStatus ClaimStatus  \<comment> \<open>\<^verbatim>\<open>f"Cannot verify claim with status: {claim.status}"\<close>\<close>
  | ClaimNotFoundForFDCRequest               \<comment> \<open>\<^verbatim>\<open>"Claim not found for this FDC request"\<close>\<close>

datatype error =
  ResourceNotFoundError string uuid
  | PolicyNotActiveError uuid
  | PolicyAlreadyClaimedError uuid
  | InsufficientFundsError decimal decimal   \<comment> \<open>required, available\<close>
  | ValueError value_error
  | FDCAttestationError fdc_failure
  | FTSOPriceError
  | HTTPException nat http_detail            \<comment> \<open>status code, detail\<close>
  | IntegrityError                           \<comment> \<open>primary key already present at flush\<close>
  | MultipleResultsFound                     \<comment> \<open>raised by \<open>scalar_one_or_none\<close>\<close>

record InsurancePool =
  contract_address :: string
  is_active :: bool
  total_value_locked :: decimal
  total_premiums_collected :: decimal
  total_payouts_made :: decimal
  stablecoin_reserve :: decimal
  fasset_reserve :: decimal
  collateralization_ratio :: decimal
  total_policies_issued :: int
  total_claims_paid :: int

record PoolTransaction =
  tx_pool_id :: uuid
  transaction_type :: PoolTransactionType
  tx_amount :: decimal
  tx_currency :: string
  tx_hash :: string
  block_number :: int
  from_address :: string
  to_address :: string
  tx_user_id :: uuid
  tx_policy_id :: uuid

text \<open>
  Fields of \<open>Policy\<close> whose names \<open>Claim\<close> also uses (\<open>user_id\<close>, \<open>status\<close>,
  \<open>payout_amount\<close>, \<open>payout_address\<close>) carry the prefix \<open>policy_\<close>.
\<close>

record Policy =
  policy_user_id :: uuid
  policy_status :: PolicyStatus
  flight_number :: string
  airline_code :: string
  coverage_amount :: decimal
  currency :: string
  delay_threshold_minutes :: int
  policy_payout_amount :: "decimal option"
  policy_payout_address :: "string option"

text \<open>The proof returned by \<open>get_proof\<close> and the JSON body returned by \<open>get_response_data\<close>.\<close>

record fdc_proof =
  merkle_root :: string
  proof_hashes :: "string list"   \<comment> \<open>the entry \<^verbatim>\<open>"proof"\<close>\<close>

text \<open>
  A JSON object is a list of entries; only integer-valued entries are represented (the
  code reads no other). The webhook's \<open>response_data\<close> is an object whose entry
  \<^verbatim>\<open>"result"\<close>, when present, is such an object.
\<close>

type_synonym json_dict = "(string \<times> int) list"

record webhook_response =
  result_entry :: "json_dict option"   \<comment> \<open>the entry \<^verbatim>\<open>"result"\<close>\<close>

datatype proof_data =
  ProofAndResponse "string list" "json_dict option"   \<comment> \<open>\<^verbatim>\<open>{"proof": ..., "response": ...}\<close>\<close>
  | WebhookResponse webhook_response                  \<comment> \<open>\<^verbatim>\<open>payload.response_data\<close>\<close>

record Claim =
  claim_number :: string
  user_id :: uuid
  policy_id :: uuid
  status :: ClaimStatus
  trigger_event :: string
  trigger_value :: "string option"
  fdc_request_id :: "string option"
  fdc_attestation_type :: "string option"
  fdc_merkle_root :: "string option"
  fdc_proof_data :: "proof_data option"
  fdc_verified :: bool
  ftso_price_usd :: "decimal option"
  payout_amount :: decimal
  payout_currency :: string
  payout_address :: string
  rejection_reason :: "string option"
  error_message :: "error option"    \<comment> \<open>the exception whose \<open>str(e)\<close> is stored\<close>
  raw_flight_data :: "json_dict option"

record db =
  policies :: "uuid \<rightharpoonup> Policy"
  claims :: "(uuid \<times> Claim) list"
  pools :: "uuid \<rightharpoonup> InsurancePool"
  pool_transactions :: "PoolTransaction list"

subsection \<open>Pool manager\<close>




definition deposit_premium ::
  "db \<Rightarrow> uuid \<Rightarrow> decimal \<Rightarrow> uuid \<Rightarrow> uuid \<Rightarrow> string \<Rightarrow> int \<Rightarrow> string
     \<Rightarrow> db \<times> (error + PoolTransaction)" where
  "deposit_premium s pool_id amount pol_id usr_id txh blk from_addr =
     (case pools s pool_id of
        None \<Rightarrow> (s, Inl (ValueError (PoolNotFound pool_id)))
      | Some pool \<Rightarrow>
          let pool' = pool \<lparr> total_value_locked := total_value_locked pool + amount,
                             total_premiums_collected := total_premiums_collected pool + amount,
                             stablecoin_reserve := stablecoin_reserve pool + amount,
                             total_policies_issued := total_policies_issued pool + 1 \<rparr>;
              transaction = \<lparr> tx_pool_id = pool_id,
                              transaction_type = PREMIUM_DEPOSIT,
                              tx_amount = amount,
                              tx_currency = ''USDT'',
                              tx_hash = txh,
                              block_number = blk,
                              from_address = from_addr,
                              to_address = contract_address pool,
                              tx_user_id = usr_id,
                              tx_policy_id = pol_id \<rparr>
          in (s \<lparr> pools := (pools s)(pool_id \<mapsto> pool'),
                   pool_transactions := pool_transactions s @ [transaction] \<rparr>,
              Inr transaction))"

record payout_info =
  info_pool_id :: uuid
  info_claim_id :: uuid
  info_amount :: decimal
  info_currency :: string
  info_to_address :: string
  info_status :: string

text \<open>\<open>PoolManager.process_payout\<close>; the engine's operation of the same name is \<open>process_payout\<close>.\<close>

definition pool_process_payout ::
  "db \<Rightarrow> uuid \<Rightarrow> decimal \<Rightarrow> uuid \<Rightarrow> uuid \<Rightarrow> string \<Rightarrow> db \<times> (error + payout_info)" where
  "pool_process_payout s pool_id amount clm_id usr_id to_addr =
     (case pools s pool_id of
        None \<Rightarrow> (s, Inl (ValueError (PoolNotFound pool_id)))
      | Some pool \<Rightarrow>
          let available = stablecoin_reserve pool in
          if amount > available then (s, Inl (InsufficientFundsError amount available))
          else
            let pool' = pool \<lparr> stablecoin_reserve := stablecoin_reserve pool - amount,
                               total_value_locked := total_value_locked pool - amount,
                               total_payouts_made := total_payouts_made pool + amount,
                               total_claims_paid := total_claims_paid pool + 1 \<rparr>
            in (s \<lparr> pools := (pools s)(pool_id \<mapsto> pool') \<rparr>,
                Inr \<lparr> info_pool_id = pool_id,
                      info_claim_id = clm_id,
                      info_amount = amount,
                      info_currency = ''USDT'',
                      info_to_address = to_addr,
                      info_status = ''pending_tx'' \<rparr>))"




subsection \<open>Claims engine\<close>

text \<open>
  \<open>get_claim\<close> is \<^verbatim>\<open>select(Claim).where(Claim.id == claim_id)\<close> followed by
  \<open>scalar_one_or_none\<close>; \<open>put_claim\<close> is the flush of an added or modified claim.
\<close>

definition get_claim :: "db \<Rightarrow> uuid \<Rightarrow> Claim option" where
  "get_claim s clm_id = map_of (claims s) clm_id"

definition put_claim :: "db \<Rightarrow> uuid \<Rightarrow> Claim \<Rightarrow> db" where
  "put_claim s clm_id c = s \<lparr> claims := AList.update clm_id c (claims s) \<rparr>"

text \<open>
  \<open>initiate_claim\<close>: \<open>new_id\<close> and \<open>new_number\<close> are the values drawn by \<open>uuid4\<close> and
  \<open>generate_claim_number\<close>. An id already in the table fails the flush, and the
  transaction is abandoned.
\<close>

definition initiate_claim ::
  "db \<Rightarrow> uuid \<Rightarrow> string \<Rightarrow> uuid \<Rightarrow> uuid \<Rightarrow> string \<Rightarrow> string option \<Rightarrow> string
     \<Rightarrow> db \<times> (error + Claim)" where
  "initiate_claim s new_id new_number pol_id usr_id event val address =
     (case policies s pol_id of
        None \<Rightarrow> (s, Inl (ResourceNotFoundError ''Policy'' pol_id))
      | Some policy \<Rightarrow>
          if policy_user_id policy \<noteq> usr_id
            then (s, Inl (ResourceNotFoundError ''Policy'' pol_id))
          else if policy_status policy \<noteq> ACTIVE
            then (s, Inl (PolicyNotActiveError pol_id))
          else if policy_status policy \<in> set [CLAIMED, POLICY_PAID]
            then (s, Inl (PolicyAlreadyClaimedError pol_id))
          else
            let claim = \<lparr> claim_number = new_number,
                          user_id = usr_id,
                          policy_id = pol_id,
                          status = INITIATED,
                          trigger_event = event,
                          trigger_value = val,
                          fdc_request_id = None,
                          fdc_attestation_type = None,
                          fdc_merkle_root = None,
                          fdc_proof_data = None,
                          fdc_verified = False,
                          ftso_price_usd = None,
                          payout_amount = coverage_amount policy,
                          payout_currency = currency policy,
                          payout_address = address,
                          rejection_reason = None,
                          error_message = None,
                          raw_flight_data = None \<rparr>
            in (case get_claim s new_id of
                  Some other \<Rightarrow> (s, Inl IntegrityError)
                | None \<Rightarrow>
                    (put_claim s new_id claim
                       \<lparr> policies := (policies s)(pol_id \<mapsto> policy \<lparr> policy_status := PAYOUT_PENDING \<rparr>) \<rparr>,
                     Inr claim)))"

text \<open>
  The calls made on the FDC client during one verification, as their outcomes:
  \<open>submit_request\<close>, \<open>poll_until_finalized\<close> and \<open>get_proof\<close> return or raise
  \<open>FDCAttestationError\<close>; \<open>get_response_data\<close> returns an optional object.
\<close>

record fdc_calls =
  submit_request :: "fdc_failure + string"
  poll_result :: "fdc_failure + unit"
  get_proof :: "fdc_failure + fdc_proof"
  get_response_data :: "json_dict option"

definition verify_proof :: "string \<Rightarrow> string list \<Rightarrow> bool" where
  "verify_proof mroot prf = (if mroot = [] \<or> prf = [] then False else True)"

datatype verification_error = VerificationFailed | Raised error

record verification_result =
  is_verified :: bool
  result_fdc_request_id :: "string option"
  result_merkle_root :: "string option"
  flight_data :: "json_dict option"
  result_error_message :: "verification_error option"

text \<open>Lines 111--131: load the claim and its policy, set the claim to \<open>VERIFYING\<close>, flush.\<close>

definition start_verification :: "db \<Rightarrow> uuid \<Rightarrow> db \<times> (error + Claim \<times> Policy)" where
  "start_verification s clm_id =
     (case get_claim s clm_id of
        None \<Rightarrow> (s, Inl (ResourceNotFoundError ''Claim'' clm_id))
      | Some claim \<Rightarrow>
          (case policies s (policy_id claim) of
             None \<Rightarrow> (s, Inl (ResourceNotFoundError ''Policy'' (policy_id claim)))
           | Some policy \<Rightarrow>
               let claim' = claim \<lparr> status := VERIFYING \<rparr>
               in (put_claim s clm_id claim', Inr (claim', policy))))"

text \<open>Lines 202--220: the handler of \<open>FDCAttestationError\<close>.\<close>

definition attestation_failed ::
  "db \<Rightarrow> uuid \<Rightarrow> Claim \<Rightarrow> fdc_failure \<Rightarrow> db \<times> (error + verification_result)" where
  "attestation_failed s clm_id claim e =
     (let claim' = claim \<lparr> status := FAILED, error_message := Some (FDCAttestationError e) \<rparr>
      in (put_claim s clm_id claim',
          Inr \<lparr> is_verified = False,
                result_fdc_request_id = fdc_request_id claim',
                result_merkle_root = None,
                flight_data = None,
                result_error_message = Some (Raised (FDCAttestationError e)) \<rparr>))"

text \<open>Lines 133--200: the body of the \<open>try\<close> block.\<close>

definition attest_claim ::
  "db \<Rightarrow> fdc_calls \<Rightarrow> uuid \<Rightarrow> Claim \<Rightarrow> db \<times> (error + verification_result)" where
  "attest_claim s fdc clm_id claim =
     (case submit_request fdc of
        Inl e \<Rightarrow> attestation_failed s clm_id claim e
      | Inr request_id \<Rightarrow>
          let claim1 = claim \<lparr> fdc_request_id := Some request_id,
                               fdc_attestation_type := Some ''EVMTransaction'' \<rparr>;
              s1 = put_claim s clm_id claim1
          in (case poll_result fdc of
                Inl e \<Rightarrow> attestation_failed s1 clm_id claim1 e
              | Inr finalized \<Rightarrow>
                  (case get_proof fdc of
                     Inl e \<Rightarrow> attestation_failed s1 clm_id claim1 e
                   | Inr prf \<Rightarrow>
                       let response_data = get_response_data fdc;
                           is_valid = verify_proof (merkle_root prf) (proof_hashes prf);
                           claim2 =
                             (if is_valid then
                                let c = claim1 \<lparr> fdc_merkle_root := Some (merkle_root prf),
                                                 fdc_proof_data :=
                                                   Some (ProofAndResponse (proof_hashes prf) response_data),
                                                 fdc_verified := True,
                                                 status := APPROVED \<rparr>
                                in (if response_data \<noteq> None \<and> response_data \<noteq> Some []
                                    then c \<lparr> raw_flight_data := response_data \<rparr>
                                    else c)
                              else claim1 \<lparr> fdc_verified := False,
                                            status := REJECTED,
                                            rejection_reason := Some ''FDC proof verification failed'' \<rparr>)
                       in (put_claim s1 clm_id claim2,
                           Inr \<lparr> is_verified = is_valid,
                                 result_fdc_request_id = Some request_id,
                                 result_merkle_root = Some (merkle_root prf),
                                 flight_data = response_data,
                                 result_error_message =
                                   (if is_valid then None else Some VerificationFailed) \<rparr>))))"

definition verify_claim_with_fdc ::
  "db \<Rightarrow> fdc_calls \<Rightarrow> uuid \<Rightarrow> db \<times> (error + verification_result)" where
  "verify_claim_with_fdc s fdc clm_id =
     (case start_verification s clm_id of
        (s', Inl e) \<Rightarrow> (s', Inl e)
      | (s', Inr (claim, policy)) \<Rightarrow> attest_claim s' fdc clm_id claim)"

record payout_result =
  success :: bool
  result_claim_id :: uuid
  result_payout_amount :: "decimal option"
  result_payout_address :: "string option"
  result_ftso_price_usd :: "decimal option"
  result_error :: "error option"

text \<open>Lines 294--309: the handler of \<open>Exception\<close> in \<open>process_payout\<close>.\<close>

definition payout_failed :: "db \<Rightarrow> uuid \<Rightarrow> Claim \<Rightarrow> error \<Rightarrow> db \<times> (error + payout_result)" where
  "payout_failed s clm_id claim e =
     (let claim' = claim \<lparr> status := FAILED, error_message := Some e \<rparr>
      in (put_claim s clm_id claim',
          Inr \<lparr> success = False,
                result_claim_id = clm_id,
                result_payout_amount = None,
                result_payout_address = None,
                result_ftso_price_usd = None,
                result_error = Some e \<rparr>))"

text \<open>
  \<^verbatim>\<open>update(Policy).where(Policy.id == claim.policy_id).values(...)\<close>: no row, no change.
\<close>

definition mark_policy_paid :: "db \<Rightarrow> uuid \<Rightarrow> decimal \<Rightarrow> string \<Rightarrow> db" where
  "mark_policy_paid s pol_id amount address =
     (case policies s pol_id of
        None \<Rightarrow> s
      | Some policy \<Rightarrow>
          s \<lparr> policies := (policies s)(pol_id \<mapsto>
                 policy \<lparr> policy_status := POLICY_PAID,
                          policy_payout_amount := Some amount,
                          policy_payout_address := Some address \<rparr>) \<rparr>)"

text \<open>
  \<open>ClaimsEngine.process_payout\<close>; \<open>get_usdt_usd\<close> is the outcome of the price-feed call
  (a price, or \<open>FTSOPriceError\<close>).
\<close>

definition process_payout ::
  "db \<Rightarrow> error + decimal \<Rightarrow> uuid \<Rightarrow> uuid \<Rightarrow> db \<times> (error + payout_result)" where
  "process_payout s get_usdt_usd clm_id pool_id =
     (case get_claim s clm_id of
        None \<Rightarrow> (s, Inl (ResourceNotFoundError ''Claim'' clm_id))
      | Some claim \<Rightarrow>
          if status claim \<noteq> APPROVED
            then (s, Inl (ValueError (ClaimNotApproved clm_id)))
          else
            let claim1 = claim \<lparr> status := PROCESSING \<rparr>;
                s1 = put_claim s clm_id claim1
            in (case get_usdt_usd of
                  Inl e \<Rightarrow> payout_failed s1 clm_id claim1 e
                | Inr usdt_price \<Rightarrow>
                    let claim2 = claim1 \<lparr> ftso_price_usd := Some usdt_price \<rparr>
                    in (case pool_process_payout s1 pool_id (payout_amount claim2) clm_id
                               (user_id claim2) (payout_address claim2) of
                          (s2, Inl e) \<Rightarrow> payout_failed s2 clm_id claim2 e
                        | (s2, Inr info) \<Rightarrow>
                            let claim3 = claim2 \<lparr> status := PAID \<rparr>;
                                s3 = mark_policy_paid s2 (policy_id claim3)
                                       (payout_amount claim3) (payout_address claim3);
                                s4 = put_claim s3 clm_id claim3
                            in (s4,
                                Inr \<lparr> success = True,
                                      result_claim_id = clm_id,
                                      result_payout_amount = Some (payout_amount claim3),
                                      result_payout_address = Some (payout_address claim3),
                                      result_ftso_price_usd = Some usdt_price,
                                      result_error = None \<rparr>))))"

subsection \<open>API handlers\<close>

text \<open>
  \<open>verify_claim\<close> (\<^verbatim>\<open>POST /{claim_id}/verify\<close>); \<open>user\<close> is the id of the user the token
  resolves to, if any. The reply's request id is read from the engine's result under
  the key \<^verbatim>\<open>"request_id"\<close>, which that result does not have.
\<close>

record verify_reply =
  reply_message :: string
  reply_claim_id :: uuid
  reply_fdc_request_id :: "string option"
  reply_status :: string

definition verify_claim ::
  "db \<Rightarrow> fdc_calls \<Rightarrow> uuid option \<Rightarrow> uuid \<Rightarrow> db \<times> (error + verify_reply)" where
  "verify_claim s fdc user clm_id =
     (case user of
        None \<Rightarrow> (s, Inl (HTTPException 404 UserNotFound))
      | Some usr_id \<Rightarrow>
          (case get_claim s clm_id of
             None \<Rightarrow> (s, Inl (HTTPException 404 ClaimNotFound))
           | Some claim \<Rightarrow>
               if user_id claim \<noteq> usr_id
                 then (s, Inl (HTTPException 404 ClaimNotFound))
               else if status claim \<notin> set [INITIATED, VERIFYING]
                 then (s, Inl (HTTPException 400 (CannotVerifyClaimWithStatus (status claim))))
               else
                 (case verify_claim_with_fdc s fdc clm_id of
                    (s', Inl e) \<Rightarrow> (s', Inl e)
                  | (s', Inr verification_result) \<Rightarrow>
                      (s', Inr \<lparr> reply_message = ''Verification initiated'',
                                reply_claim_id = clm_id,
                                reply_fdc_request_id = None,
                                reply_status = ''verifying'' \<rparr>))))"

text \<open>Python's \<open>str\<close> of an integer, as the f-string of the rejection reason renders it.\<close>

function str_nat :: "nat \<Rightarrow> string" where
  "str_nat n = (if n < 10 then [''0123456789'' ! n]
                else str_nat (n div 10) @ [''0123456789'' ! (n mod 10)])"
  by pat_completeness auto
termination
  by (relation "measure id") auto

declare str_nat.simps [simp del]

definition str_int :: "int \<Rightarrow> string" where
  "str_int i = (if i < 0 then CHR ''-'' # str_nat (nat (- i)) else str_nat (nat i))"

text \<open>\<open>fdc_finalization_webhook\<close> (\<^verbatim>\<open>POST /fdc-webhook\<close>).\<close>

record FDCWebhookPayload =
  request_id :: string
  attestation_type :: string
  payload_merkle_root :: string
  response_data :: webhook_response
  payload_block_number :: int

record webhook_reply =
  processed_status :: string
  processed_claim_id :: uuid
  claim_status :: ClaimStatus

text \<open>\<^verbatim>\<open>payload.response_data.get("result", {}).get("delay_minutes", 0)\<close>\<close>

definition payload_delay_minutes :: "FDCWebhookPayload \<Rightarrow> int" where
  "payload_delay_minutes payload =
     (let flight = (case result_entry (response_data payload) of None \<Rightarrow> [] | Some d \<Rightarrow> d)
      in (case map_of flight ''delay_minutes'' of None \<Rightarrow> 0 | Some m \<Rightarrow> m))"

definition fdc_finalization_webhook ::
  "db \<Rightarrow> FDCWebhookPayload \<Rightarrow> db \<times> (error + webhook_reply)" where
  "fdc_finalization_webhook s payload =
     (case filter (\<lambda>(i, c). fdc_request_id c = Some (request_id payload)) (claims s) of
        [] \<Rightarrow> (s, Inl (HTTPException 404 ClaimNotFoundForFDCRequest))
      | [(clm_id, claim)] \<Rightarrow>
          let claim1 = claim \<lparr> fdc_merkle_root := Some (payload_merkle_root payload),
                               fdc_proof_data := Some (WebhookResponse (response_data payload)),
                               fdc_verified := True \<rparr>;
              claim2 =
                (if attestation_type payload = ''Web2Json'' then
                   let delay_minutes = payload_delay_minutes payload
                   in (case policies s (policy_id claim1) of
                         None \<Rightarrow>
                           claim1 \<lparr> status := REJECTED,
                                    rejection_reason :=
                                      Some (''Delay of '' @ str_int delay_minutes
                                              @ '' minutes below threshold'') \<rparr>
                       | Some policy \<Rightarrow>
                           if delay_minutes \<ge> delay_threshold_minutes policy
                             then claim1 \<lparr> status := APPROVED \<rparr>
                             else claim1 \<lparr> status := REJECTED,
                                           rejection_reason :=
                                             Some (''Delay of '' @ str_int delay_minutes
                                                     @ '' minutes below threshold'') \<rparr>)
                 else claim1)
          in (put_claim s clm_id claim2,
              Inr \<lparr> processed_status = ''processed'',
                    processed_claim_id = clm_id,
                    claim_status = status claim2 \<rparr>)
      | several \<Rightarrow> (s, Inl MultipleResultsFound))"

subsection \<open>FDC client: polling\<close>

text \<open>
  The hub as the loop sees it: \<open>getAttestationStatus hub k\<close> is the outcome of the
  \<open>k\<close>-th status call (\<open>None\<close>: the call raised; \<open>Some c\<close>: status code \<open>c\<close>), and
  \<open>call_duration hub k\<close> the microseconds the clock advances during that call. The clock
  is a count of microseconds; a sleep advances it by the interval asked for (by nothing
  when that is not positive).
\<close>

record fdc_hub =
  getAttestationStatus :: "nat \<Rightarrow> nat option"
  call_duration :: "nat \<Rightarrow> nat"

record request_status =
  status_request_id :: string
  status_name :: string      \<comment> \<open>the entry \<^verbatim>\<open>"status"\<close>\<close>
  status_code :: nat

definition status_map :: "nat \<Rightarrow> string" where
  "status_map c = (if c = 0 then ''pending''
                   else if c = 1 then ''submitted''
                   else if c = 2 then ''voting''
                   else if c = 3 then ''finalized''
                   else if c = 4 then ''failed''
                   else ''unknown'')"

definition get_request_status :: "fdc_hub \<Rightarrow> string \<Rightarrow> nat \<Rightarrow> error + request_status" where
  "get_request_status hub rid k =
     (case getAttestationStatus hub k of
        None \<Rightarrow> Inl (FDCAttestationError StatusCheckFailed)
      | Some c \<Rightarrow> Inr \<lparr> status_request_id = rid, status_name = status_map c, status_code = c \<rparr>)"

definition sleep :: "int \<Rightarrow> int" where
  "sleep seconds = (if seconds \<le> 0 then 0 else seconds * 1000000)"

text \<open>
  The \<open>while\<close> loop of \<open>poll_until_finalized\<close>: \<open>k\<close> counts the status calls made so
  far, \<open>now\<close> is the clock read by the loop condition, \<open>start_time\<close> the clock
  read on entry. No result is \<open>None\<close>.
\<close>

partial_function (option) poll_loop ::
  "fdc_hub \<Rightarrow> string \<Rightarrow> int \<Rightarrow> int \<Rightarrow> int \<Rightarrow> nat \<Rightarrow> int \<Rightarrow> (error + request_status) option" where
  "poll_loop hub rid timeout_seconds poll_interval deadline k now =
     (if now < deadline then
        (case get_request_status hub rid k of
           Inl e \<Rightarrow> Some (Inl e)
         | Inr st \<Rightarrow>
             if status_name st = ''finalized'' then Some (Inr st)
             else if status_name st = ''failed''
               then Some (Inl (FDCAttestationError (RequestFailed rid)))
             else poll_loop hub rid timeout_seconds poll_interval deadline (Suc k)
                    (now + int (call_duration hub k) + sleep poll_interval))
      else Some (Inl (FDCAttestationError (DidNotFinalize rid timeout_seconds))))"

definition poll_until_finalized ::
  "fdc_hub \<Rightarrow> string \<Rightarrow> int \<Rightarrow> int \<Rightarrow> int \<Rightarrow> (error + request_status) option" where
  "poll_until_finalized hub rid start_time timeout_seconds poll_interval =
     poll_loop hub rid timeout_seconds poll_interval
       (start_time + timeout_seconds * 1000000) 0 start_time"

subsection \<open>Outcomes and bound of the polling loop\<close>




subsection \<open>Sequences of operations\<close>

text \<open>
  The operations that reach the claims table or the pools, each with the arguments and
  the outcomes of the external calls it is run with; \<open>run\<close> applies a sequence of them,
  keeping the state each one leaves (also when it raises).
\<close>

datatype operation =
  InitiateClaim uuid string uuid uuid string "string option" string
  | VerifyClaimWithFdc fdc_calls uuid
  | VerifyClaim fdc_calls "uuid option" uuid
  | FdcFinalizationWebhook FDCWebhookPayload
  | ProcessPayout "error + decimal" uuid uuid
  | DepositPremium uuid decimal uuid uuid string int string
  | PoolProcessPayout uuid decimal uuid uuid string

fun apply_operation :: "db \<Rightarrow> operation \<Rightarrow> db" where
  "apply_operation s (InitiateClaim new_id num pol_id usr_id ev val addr) =
     fst (initiate_claim s new_id num pol_id usr_id ev val addr)"
| "apply_operation s (VerifyClaimWithFdc fdc clm_id) = fst (verify_claim_with_fdc s fdc clm_id)"
| "apply_operation s (VerifyClaim fdc user clm_id) = fst (verify_claim s fdc user clm_id)"
| "apply_operation s (FdcFinalizationWebhook payload) = fst (fdc_finalization_webhook s payload)"
| "apply_operation s (ProcessPayout price clm_id pool_id) =
     fst (process_payout s price clm_id pool_id)"
| "apply_operation s (DepositPremium pool_id amount pol_id usr_id txh blk from_addr) =
     fst (deposit_premium s pool_id amount pol_id usr_id txh blk from_addr)"
| "apply_operation s (PoolProcessPayout pool_id amount clm_id usr_id addr) =
     fst (pool_process_payout s pool_id amount clm_id usr_id addr)"

definition run :: "db \<Rightarrow> operation list \<Rightarrow> db" where
  "run s ops = foldl apply_operation s ops"

definition payout_amount_of :: "db \<Rightarrow> uuid \<Rightarrow> decimal option" where
  "payout_amount_of s clm_id = map_option payout_amount (get_claim s clm_id)"

text \<open>The primary key of the claims table: no two rows with the same id.\<close>

definition unique_claim_ids :: "db \<Rightarrow> bool" where
  "unique_claim_ids s = distinct (map fst (claims s))"

subsection \<open>Example states\<close>

definition example_pool :: InsurancePool where
  "example_pool =
     \<lparr> contract_address = ''0xP001'',
       is_active = True,
       total_value_locked = 1000,
       total_premiums_collected = 1000,
       total_payouts_made = 0,
       stablecoin_reserve = 1000,
       fasset_reserve = 0,
       collateralization_ratio = 150,
       total_policies_issued = 4,
       total_claims_paid = 0 \<rparr>"

definition pool_db :: db where
  "pool_db = \<lparr> policies = Map.empty, claims = [], pools = [1 \<mapsto> example_pool], pool_transactions = [] \<rparr>"

definition active_policy :: Policy where
  "active_policy =
     \<lparr> policy_user_id = 7,
       policy_status = ACTIVE,
       flight_number = ''AI101'',
       airline_code = ''AI'',
       coverage_amount = 500,
       currency = ''USDT'',
       delay_threshold_minutes = 120,
       policy_payout_amount = None,
       policy_payout_address = None \<rparr>"

definition approved_claim :: Claim where
  "approved_claim =
     \<lparr> claim_number = ''CLM-261104-A1B2C3'',
       user_id = 7,
       policy_id = 10,
       status = APPROVED,
       trigger_event = ''flight_delayed'',
       trigger_value = Some ''150 minutes'',
       fdc_request_id = Some ''0x01'',
       fdc_attestation_type = Some ''EVMTransaction'',
       fdc_merkle_root = Some ''0xaa'',
       fdc_proof_data = Some (ProofAndResponse [''0xbb''] None),
       fdc_verified = True,
       ftso_price_usd = None,
       payout_amount = 500,
       payout_currency = ''USDT'',
       payout_address = ''0xU7'',
       rejection_reason = None,
       error_message = None,
       raw_flight_data = None \<rparr>"

definition engine_db :: db where
  "engine_db =
     \<lparr> policies = [10 \<mapsto> active_policy \<lparr> policy_status := PAYOUT_PENDING \<rparr>,
                    11 \<mapsto> active_policy,
                    12 \<mapsto> active_policy \<lparr> policy_status := PENDING \<rparr>],
       claims = [(100, approved_claim)],
       pools = [3 \<mapsto> example_pool, 4 \<mapsto> example_pool \<lparr> stablecoin_reserve := 100 \<rparr>],
       pool_transactions = [] \<rparr>"

definition paid_db :: db where
  "paid_db = fst (process_payout engine_db (Inr 1) 100 3)"

definition failing_fdc :: fdc_calls where
  "failing_fdc =
     \<lparr> submit_request = Inl SubmissionFailed,
       poll_result = Inl (DidNotFinalize ''0x02'' 180),
       get_proof = Inl ProofRetrievalFailed,
       get_response_data = None \<rparr>"

definition finalized_fdc :: fdc_calls where
  "finalized_fdc =
     \<lparr> submit_request = Inr ''0x02'',
       poll_result = Inr (),
       get_proof = Inr \<lparr> merkle_root = ''0xaa'', proof_hashes = [''0xbb''] \<rparr>,
       get_response_data = Some [(''delay_minutes'', 95)] \<rparr>"

definition verifying_claim :: Claim where
  "verifying_claim = approved_claim \<lparr> status := VERIFYING, fdc_merkle_root := None,
                                       fdc_proof_data := None, fdc_verified := False \<rparr>"

definition webhook_db :: db where
  "webhook_db = engine_db \<lparr> claims := [(100, verifying_claim)] \<rparr>"

definition delay_payload :: "int \<Rightarrow> FDCWebhookPayload" where
  "delay_payload minutes =
     \<lparr> request_id = ''0x01'',
       attestation_type = ''Web2Json'',
       payload_merkle_root = ''0xaa'',
       response_data = \<lparr> result_entry = Some [(''delay_minutes'', minutes)] \<rparr>,
       payload_block_number = 4242 \<rparr>"

definition initiated_db :: db where
  "initiated_db =
     fst (initiate_claim engine_db 101 ''CLM-261104-0000AA'' 11 7 ''flight_delayed'' None ''0xU7'')"



definition pending_hub :: fdc_hub where
  "pending_hub = \<lparr> getAttestationStatus = (\<lambda>k. Some 2), call_duration = (\<lambda>k. 0) \<rparr>"

section \<open>Properties\<close>

subsection \<open>Pool ledger\<close>




text \<open>
  C4 (amended). A pool whose stablecoin reserve is non-negative still has a non-negative
  reserve after \<open>PoolManager.process_payout\<close> on any pool, whatever the amount and
  whether the payout succeeds or fails, and after \<open>deposit_premium\<close> of a non-negative
  amount.
\<close>

theorem reserve_nonnegative_preserved:
  assumes "pools s p = Some pool" and "0 \<le> stablecoin_reserve pool"
  shows "(\<exists>pool'. pools (fst (pool_process_payout s pool_id amount clm usr addr)) p = Some pool'
            \<and> 0 \<le> stablecoin_reserve pool')
       \<and> (0 \<le> deposit \<longrightarrow>
            (\<exists>pool'. pools (fst (deposit_premium s pool_id deposit pol usr txh blk from_addr)) p
                         = Some pool'
               \<and> 0 \<le> stablecoin_reserve pool'))"
  using assms
  by (auto simp: pool_process_payout_def deposit_premium_def Let_def
           split: option.splits if_splits)

theorem reserve_nonnegative_preserved_witness:
  "pools pool_db 1 = Some example_pool
   \<and> 0 \<le> stablecoin_reserve example_pool
   \<and> (\<exists>pool'. pools (fst (pool_process_payout pool_db 1 1000 100 7 ''0xA'')) 1 = Some pool'
          \<and> 0 \<le> stablecoin_reserve pool')
   \<and> (0::decimal) \<le> 25
   \<and> (\<exists>pool'. pools (fst (deposit_premium pool_db 1 25 10 7 ''0xT'' 5 ''0xF'')) 1 = Some pool'
          \<and> 0 \<le> stablecoin_reserve pool')"
proof -
  have h1: "pools pool_db 1 = Some example_pool"
    by (simp add: pool_db_def)
  have h2: "0 \<le> stablecoin_reserve example_pool"
    by (simp add: example_pool_def)
  from reserve_nonnegative_preserved
         [OF h1 h2, of 1 1000 100 7 "''0xA''" 25 10 "''0xT''" 5 "''0xF''"] h1 h2
  show ?thesis by simp
qed

text \<open>
  C4 as stated fails: \<open>deposit_premium\<close> accepts a negative amount, and a deposit of
  \<open>-1001\<close> into a reserve of 1000 leaves \<open>-1\<close>.
\<close>

theorem deposit_premium_negative_counterexample:
  "map_option stablecoin_reserve (pools pool_db 1) = Some 1000
   \<and> map_option stablecoin_reserve
        (pools (fst (deposit_premium pool_db 1 (- 1001) 10 7 ''0xT'' 5 ''0xF'')) 1) = Some (- 1)
   \<and> \<not> isl (snd (deposit_premium pool_db 1 (- 1001) 10 7 ''0xT'' 5 ''0xF''))"
  by (simp add: deposit_premium_def pool_db_def example_pool_def Let_def)



subsection \<open>Claims engine: initiation and payout\<close>

lemma get_claim_put_claim [simp]:
  "get_claim (put_claim s i c) j = (if j = i then Some c else get_claim s j)"
  by (simp add: get_claim_def put_claim_def update_conv')

lemma put_claim_other_tables [simp]:
  "policies (put_claim s i c) = policies s"
  "pools (put_claim s i c) = pools s"
  "pool_transactions (put_claim s i c) = pool_transactions s"
  by (simp_all add: put_claim_def)

lemma get_claim_other_tables [simp]:
  "get_claim (s \<lparr> policies := ps \<rparr>) = get_claim s"
  "get_claim (s \<lparr> pools := qs \<rparr>) = get_claim s"
  "get_claim (s \<lparr> pool_transactions := ts \<rparr>) = get_claim s"
  by (simp_all add: get_claim_def fun_eq_iff)

text \<open>
  C6. For a policy found and owned by the caller whose status is not \<open>ACTIVE\<close>,
  \<open>initiate_claim\<close> raises \<open>PolicyNotActiveError\<close> and the state (claims and policy status)
  is the one it was given. In general a failed call leaves the state as it was, and a
  successful one has stored the new claim, \<open>INITIATED\<close>, under an id that was free, and
  has moved the policy from \<open>ACTIVE\<close> to \<open>PAYOUT_PENDING\<close>: both or neither.
\<close>

theorem initiate_claim_transaction:
  assumes "policies s pol_id = Some policy" and "policy_user_id policy = usr_id"
  shows "(policy_status policy \<noteq> ACTIVE \<longrightarrow>
            initiate_claim s new_id num pol_id usr_id ev val addr
              = (s, Inl (PolicyNotActiveError pol_id)))
       \<and> (case initiate_claim s new_id num pol_id usr_id ev val addr of
            (s', Inl e) \<Rightarrow> s' = s
          | (s', Inr claim) \<Rightarrow>
              policy_status policy = ACTIVE
            \<and> get_claim s new_id = None
            \<and> get_claim s' new_id = Some claim
            \<and> status claim = INITIATED
            \<and> policy_id claim = pol_id
            \<and> policies s' = (policies s)(pol_id \<mapsto> policy \<lparr> policy_status := PAYOUT_PENDING \<rparr>))"
  using assms
  by (simp add: initiate_claim_def Let_def split: option.splits)

theorem initiate_claim_transaction_witness:
  "policies engine_db 12 = Some (active_policy \<lparr> policy_status := PENDING \<rparr>)
   \<and> policy_user_id (active_policy \<lparr> policy_status := PENDING \<rparr>) = 7
   \<and> initiate_claim engine_db 101 ''CLM-261104-0000AA'' 12 7 ''flight_delayed'' None ''0xU7''
        = (engine_db, Inl (PolicyNotActiveError 12))
   \<and> policies engine_db 11 = Some active_policy
   \<and> policy_user_id active_policy = 7
   \<and> \<not> isl (snd (initiate_claim engine_db 101 ''CLM-261104-0000AA'' 11 7
                      ''flight_delayed'' None ''0xU7''))
   \<and> map_option status
        (get_claim (fst (initiate_claim engine_db 101 ''CLM-261104-0000AA'' 11 7
                           ''flight_delayed'' None ''0xU7'')) 101) = Some INITIATED
   \<and> map_option policy_status
        (policies (fst (initiate_claim engine_db 101 ''CLM-261104-0000AA'' 11 7
                          ''flight_delayed'' None ''0xU7'')) 11) = Some PAYOUT_PENDING"
proof -
  have h1: "policies engine_db 12 = Some (active_policy \<lparr> policy_status := PENDING \<rparr>)"
    by (simp add: engine_db_def)
  have h2: "policy_user_id (active_policy \<lparr> policy_status := PENDING \<rparr>) = 7"
    by (simp add: active_policy_def)
  have h3: "policies engine_db 11 = Some active_policy"
    by (simp add: engine_db_def)
  have h4: "policy_user_id active_policy = 7"
    by (simp add: active_policy_def)
  have fresh: "get_claim engine_db 101 = None"
    by (simp add: get_claim_def engine_db_def)
  have a: "initiate_claim engine_db 101 ''CLM-261104-0000AA'' 12 7 ''flight_delayed'' None ''0xU7''
        = (engine_db, Inl (PolicyNotActiveError 12))"
    using initiate_claim_transaction
            [OF h1 h2, of 101 "''CLM-261104-0000AA''" "''flight_delayed''" None "''0xU7''"]
    by simp
  have ok: "\<not> isl (snd (initiate_claim engine_db 101 ''CLM-261104-0000AA'' 11 7
                      ''flight_delayed'' None ''0xU7''))"
    using h3 fresh by (simp add: initiate_claim_def active_policy_def Let_def)
  have b: "map_option status
        (get_claim (fst (initiate_claim engine_db 101 ''CLM-261104-0000AA'' 11 7
                           ''flight_delayed'' None ''0xU7'')) 101) = Some INITIATED
   \<and> map_option policy_status
        (policies (fst (initiate_claim engine_db 101 ''CLM-261104-0000AA'' 11 7
                          ''flight_delayed'' None ''0xU7'')) 11) = Some PAYOUT_PENDING"
    using initiate_claim_transaction
            [OF h3 h4, of 101 "''CLM-261104-0000AA''" "''flight_delayed''" None "''0xU7''"] ok
    by (auto split: prod.splits sum.splits)
  from h1 h2 h3 h4 a ok b show ?thesis by simp
qed

text \<open>
  C3 (amended). \<open>process_payout\<close> on a claim that is already \<open>PAID\<close> raises
  \<open>ValueError\<close> (the claim is not approved for payout) and changes nothing: the pool is
  not debited a second time, and the claim and the policy stay as they are.
\<close>

theorem process_payout_on_paid_claim:
  assumes "get_claim s clm_id = Some claim" and "status claim = PAID"
  shows "process_payout s price clm_id pool_id = (s, Inl (ValueError (ClaimNotApproved clm_id)))"
  using assms by (simp add: process_payout_def)

text \<open>
  C10. \<open>process_payout\<close> on an \<open>APPROVED\<close> claim always returns a result, never an
  exception. The claim ends \<open>PAID\<close> when the result reports success and \<open>FAILED\<close>
  otherwise, never \<open>PROCESSING\<close>; on failure the error of the result is the one
  recorded on the claim. A price-feed failure, a missing pool and an insufficient
  reserve each give such a failure; a sufficient reserve gives success.
\<close>

theorem process_payout_never_stuck:
  assumes "get_claim s clm_id = Some claim" and "status claim = APPROVED"
  shows "\<exists>s' r claim'.
           process_payout s price clm_id pool_id = (s', Inr r)
         \<and> get_claim s' clm_id = Some claim'
         \<and> status claim' = (if success r then PAID else FAILED)
         \<and> (\<not> success r \<longrightarrow> error_message claim' = result_error r \<and> result_error r \<noteq> None)
         \<and> (\<forall>e. price = Inl e \<longrightarrow> \<not> success r \<and> result_error r = Some e)
         \<and> (\<forall>p. price = Inr p \<and> pools s pool_id = None \<longrightarrow>
                \<not> success r \<and> result_error r = Some (ValueError (PoolNotFound pool_id)))
         \<and> (\<forall>p pool. price = Inr p \<and> pools s pool_id = Some pool
                      \<and> payout_amount claim \<le> stablecoin_reserve pool \<longrightarrow> success r)
         \<and> (\<forall>p pool. price = Inr p \<and> pools s pool_id = Some pool
                      \<and> stablecoin_reserve pool < payout_amount claim \<longrightarrow>
                \<not> success r
              \<and> result_error r
                  = Some (InsufficientFundsError (payout_amount claim) (stablecoin_reserve pool)))"
  using assms
  by (cases price; cases "pools s pool_id")
     (auto simp: process_payout_def payout_failed_def pool_process_payout_def Let_def)

lemma engine_db_claim: "get_claim engine_db 100 = Some approved_claim"
  by (simp add: get_claim_def engine_db_def)

lemma engine_db_pool: "pools engine_db 3 = Some example_pool"
  by (simp add: engine_db_def)

lemma mark_policy_paid_other_tables [simp]:
  "get_claim (mark_policy_paid s p a addr) = get_claim s"
  "pools (mark_policy_paid s p a addr) = pools s"
  by (simp_all add: mark_policy_paid_def get_claim_def fun_eq_iff split: option.splits)

lemma first_payout:
  "process_payout engine_db (Inr 1) 100 3
     = (paid_db,
        Inr \<lparr> success = True, result_claim_id = 100, result_payout_amount = Some 500,
              result_payout_address = Some ''0xU7'', result_ftso_price_usd = Some 1,
              result_error = None \<rparr>)"
  unfolding paid_db_def
  by (simp add: process_payout_def engine_db_claim engine_db_pool pool_process_payout_def
        approved_claim_def example_pool_def Let_def)

lemma paid_db_claim:
  "get_claim paid_db 100 = Some (approved_claim \<lparr> status := PAID, ftso_price_usd := Some 1 \<rparr>)"
  unfolding paid_db_def
  by (simp add: process_payout_def engine_db_claim engine_db_pool pool_process_payout_def
        approved_claim_def example_pool_def Let_def)

lemma paid_db_pool:
  "pools paid_db 3
     = Some (example_pool \<lparr> stablecoin_reserve := 500, total_value_locked := 500,
                            total_payouts_made := 500, total_claims_paid := 1 \<rparr>)"
  unfolding paid_db_def
  by (simp add: process_payout_def engine_db_claim engine_db_pool pool_process_payout_def
        mark_policy_paid_def approved_claim_def example_pool_def Let_def
        split: option.splits)

theorem process_payout_on_paid_claim_witness:
  "get_claim paid_db 100 = Some (approved_claim \<lparr> status := PAID, ftso_price_usd := Some 1 \<rparr>)
   \<and> status (approved_claim \<lparr> status := PAID, ftso_price_usd := Some 1 \<rparr>) = PAID
   \<and> process_payout paid_db (Inr 1) 100 3 = (paid_db, Inl (ValueError (ClaimNotApproved 100)))"
proof -
  have h: "status (approved_claim \<lparr> status := PAID, ftso_price_usd := Some 1 \<rparr>) = PAID"
    by simp
  from process_payout_on_paid_claim [OF paid_db_claim h, of "Inr 1" 3] paid_db_claim h
  show ?thesis by simp
qed

text \<open>
  C3 as stated fails: the first payout of the approved claim succeeds and leaves it
  \<open>PAID\<close>; the second call is not a success returning that result, it raises.
\<close>

theorem process_payout_second_call_counterexample:
  "snd (process_payout engine_db (Inr 1) 100 3)
     = Inr \<lparr> success = True, result_claim_id = 100, result_payout_amount = Some 500,
             result_payout_address = Some ''0xU7'', result_ftso_price_usd = Some 1,
             result_error = None \<rparr>
   \<and> map_option status (get_claim (fst (process_payout engine_db (Inr 1) 100 3)) 100) = Some PAID
   \<and> snd (process_payout (fst (process_payout engine_db (Inr 1) 100 3)) (Inr 1) 100 3)
       = Inl (ValueError (ClaimNotApproved 100))"
proof -
  have b: "process_payout paid_db (Inr 1) 100 3 = (paid_db, Inl (ValueError (ClaimNotApproved 100)))"
    using paid_db_claim by (simp add: process_payout_def)
  show ?thesis
    by (simp add: first_payout b paid_db_claim)
qed

theorem process_payout_never_stuck_witness:
  "get_claim engine_db 100 = Some approved_claim
   \<and> status approved_claim = APPROVED
   \<and> map_option status (get_claim (fst (process_payout engine_db (Inl FTSOPriceError) 100 3)) 100)
       = Some FAILED
   \<and> map_option status (get_claim (fst (process_payout engine_db (Inr 1) 100 2)) 100)
       = Some FAILED
   \<and> map_option status (get_claim (fst (process_payout engine_db (Inr 1) 100 4)) 100)
       = Some FAILED
   \<and> map_option error_message (get_claim (fst (process_payout engine_db (Inr 1) 100 4)) 100)
       = Some (Some (InsufficientFundsError 500 100))
   \<and> map_option status (get_claim (fst (process_payout engine_db (Inr 1) 100 3)) 100)
       = Some PAID"
proof -
  have h: "status approved_claim = APPROVED"
    by (simp add: approved_claim_def)
  have none: "pools engine_db 2 = None"
    by (simp add: engine_db_def)
  have low: "pools engine_db 4 = Some (example_pool \<lparr> stablecoin_reserve := 100 \<rparr>)"
    by (simp add: engine_db_def)
  have short: "stablecoin_reserve (example_pool \<lparr> stablecoin_reserve := 100 \<rparr>)
                 < payout_amount approved_claim"
    "payout_amount approved_claim = 500"
    by (simp_all add: approved_claim_def)
  have d: "map_option status (get_claim (fst (process_payout engine_db (Inr 1) 100 4)) 100)
             = Some FAILED
           \<and> map_option error_message
               (get_claim (fst (process_payout engine_db (Inr 1) 100 4)) 100)
             = Some (Some (InsufficientFundsError 500 100))"
    using process_payout_never_stuck [OF engine_db_claim h, of "Inr 1" 4] low short
    by auto
  have enough: "payout_amount approved_claim \<le> stablecoin_reserve example_pool"
    by (simp add: approved_claim_def example_pool_def)
  have a: "map_option status
             (get_claim (fst (process_payout engine_db (Inl FTSOPriceError) 100 3)) 100)
           = Some FAILED"
    using process_payout_never_stuck [OF engine_db_claim h, of "Inl FTSOPriceError" 3]
    by auto
  have b: "map_option status (get_claim (fst (process_payout engine_db (Inr 1) 100 2)) 100)
           = Some FAILED"
    using process_payout_never_stuck [OF engine_db_claim h, of "Inr 1" 2] none
    by auto
  have c: "map_option status (get_claim (fst (process_payout engine_db (Inr 1) 100 3)) 100)
           = Some PAID"
    using process_payout_never_stuck [OF engine_db_claim h, of "Inr 1" 3] engine_db_pool enough
    by auto
  from engine_db_claim h a b c d show ?thesis by simp
qed

subsection \<open>Claims engine: verification\<close>

text \<open>
  C7 (amended). The status requirement is enforced by the API handler \<open>verify_claim\<close>:
  for a claim of the caller whose status is neither \<open>INITIATED\<close> nor \<open>VERIFYING\<close> it
  answers HTTP 400 and leaves the state as it was, and otherwise it hands over to the
  engine. The engine's \<open>verify_claim_with_fdc\<close> looks at no status: once the claim and
  its policy are loaded, the claim is set to \<open>VERIFYING\<close> whatever it was before.
\<close>

theorem verification_status_guard:
  assumes "get_claim s clm_id = Some claim" and "user_id claim = usr_id"
  shows "(status claim \<notin> {INITIATED, VERIFYING} \<longrightarrow>
            verify_claim s fdc (Some usr_id) clm_id
              = (s, Inl (HTTPException 400 (CannotVerifyClaimWithStatus (status claim)))))
       \<and> (status claim \<in> {INITIATED, VERIFYING} \<longrightarrow>
            fst (verify_claim s fdc (Some usr_id) clm_id)
              = fst (verify_claim_with_fdc s fdc clm_id))
       \<and> (\<forall>policy. policies s (policy_id claim) = Some policy \<longrightarrow>
            start_verification s clm_id
              = (put_claim s clm_id (claim \<lparr> status := VERIFYING \<rparr>),
                 Inr (claim \<lparr> status := VERIFYING \<rparr>, policy)))"
  using assms
  by (auto simp: verify_claim_def start_verification_def Let_def split: prod.splits sum.splits)

lemma paid_db_policy:
  "policies paid_db 10
     = Some (active_policy \<lparr> policy_status := POLICY_PAID, policy_payout_amount := Some 500,
                              policy_payout_address := Some ''0xU7'' \<rparr>)"
  unfolding paid_db_def
  by (simp add: process_payout_def engine_db_claim engine_db_pool pool_process_payout_def
        mark_policy_paid_def approved_claim_def example_pool_def Let_def)
     (simp add: engine_db_def)

theorem verification_status_guard_witness:
  "get_claim paid_db 100 = Some (approved_claim \<lparr> status := PAID, ftso_price_usd := Some 1 \<rparr>)
   \<and> user_id (approved_claim \<lparr> status := PAID, ftso_price_usd := Some 1 \<rparr>) = 7
   \<and> verify_claim paid_db finalized_fdc (Some 7) 100
       = (paid_db, Inl (HTTPException 400 (CannotVerifyClaimWithStatus PAID)))
   \<and> map_option status (get_claim (fst (start_verification paid_db 100)) 100) = Some VERIFYING
   \<and> get_claim webhook_db 100 = Some verifying_claim
   \<and> user_id verifying_claim = 7
   \<and> status verifying_claim = VERIFYING
   \<and> fst (verify_claim webhook_db finalized_fdc (Some 7) 100)
       = fst (verify_claim_with_fdc webhook_db finalized_fdc 100)"
proof -
  have h: "user_id (approved_claim \<lparr> status := PAID, ftso_price_usd := Some 1 \<rparr>) = 7"
    by (simp add: approved_claim_def)
  have pol: "policies paid_db (policy_id (approved_claim \<lparr> status := PAID,
                                                          ftso_price_usd := Some 1 \<rparr>))
               = Some (active_policy \<lparr> policy_status := POLICY_PAID,
                                        policy_payout_amount := Some 500,
                                        policy_payout_address := Some ''0xU7'' \<rparr>)"
    using paid_db_policy by (simp add: approved_claim_def)
  have a: "verify_claim paid_db finalized_fdc (Some 7) 100
             = (paid_db, Inl (HTTPException 400 (CannotVerifyClaimWithStatus PAID)))"
    using verification_status_guard [OF paid_db_claim h, of finalized_fdc] by simp
  have b: "map_option status (get_claim (fst (start_verification paid_db 100)) 100)
             = Some VERIFYING"
    using verification_status_guard [OF paid_db_claim h, of finalized_fdc] pol by simp
  have g: "get_claim webhook_db 100 = Some verifying_claim"
    by (simp add: get_claim_def webhook_db_def)
  have v: "user_id verifying_claim = 7" "status verifying_claim = VERIFYING"
    by (simp_all add: verifying_claim_def approved_claim_def)
  have c: "fst (verify_claim webhook_db finalized_fdc (Some 7) 100)
             = fst (verify_claim_with_fdc webhook_db finalized_fdc 100)"
    using verification_status_guard [OF g v(1), of finalized_fdc] v(2) by simp
  from paid_db_claim h a b g v c show ?thesis by simp
qed

text \<open>
  C7 as stated fails on the engine operation: a \<open>PAID\<close> claim is set to \<open>VERIFYING\<close>,
  and ends \<open>FAILED\<close> when the submission fails and \<open>APPROVED\<close> when the proof verifies.
\<close>

theorem verify_claim_with_fdc_overwrites_counterexample:
  "map_option status (get_claim paid_db 100) = Some PAID
   \<and> map_option status (get_claim (fst (start_verification paid_db 100)) 100) = Some VERIFYING
   \<and> map_option status (get_claim (fst (verify_claim_with_fdc paid_db failing_fdc 100)) 100)
       = Some FAILED
   \<and> map_option status (get_claim (fst (verify_claim_with_fdc paid_db finalized_fdc 100)) 100)
       = Some APPROVED"
  by (simp add: verify_claim_with_fdc_def start_verification_def attest_claim_def
        attestation_failed_def verify_proof_def paid_db_claim paid_db_policy
        failing_fdc_def finalized_fdc_def approved_claim_def Let_def)

lemma str_int_95: "str_int 95 = ''95''"
  by (simp add: str_int_def str_nat.simps)

text \<open>
  C1 (amended). When the finalization of a claim's oracle request is delivered to the
  webhook with a \<open>Web2Json\<close> attestation, one claim carries the request id and its
  policy exists, the claim becomes \<open>APPROVED\<close> exactly when the measured delay is at
  least the policy's threshold, and otherwise \<open>REJECTED\<close> with the reason
  \<^verbatim>\<open>Delay of <delay> minutes below threshold\<close>, which cites the measured delay.
\<close>

theorem webhook_threshold_decision:
  assumes "filter (\<lambda>(i, c). fdc_request_id c = Some (request_id payload)) (claims s)
             = [(clm_id, claim)]"
    and "attestation_type payload = ''Web2Json''"
    and "policies s (policy_id claim) = Some policy"
  shows "\<exists>s' reply claim'.
           fdc_finalization_webhook s payload = (s', Inr reply)
         \<and> get_claim s' clm_id = Some claim'
         \<and> claim_status reply = status claim'
         \<and> (status claim' = APPROVED
              \<longleftrightarrow> delay_threshold_minutes policy \<le> payload_delay_minutes payload)
         \<and> (payload_delay_minutes payload < delay_threshold_minutes policy \<longrightarrow>
               status claim' = REJECTED
             \<and> rejection_reason claim'
                 = Some (''Delay of '' @ str_int (payload_delay_minutes payload)
                           @ '' minutes below threshold'')
             \<and> sublist (str_int (payload_delay_minutes payload))
                  (the (rejection_reason claim')))"
  using assms
  by (auto simp: fdc_finalization_webhook_def Let_def sublist_appendI simp del: append.simps)

lemma webhook_db_rows:
  "filter (\<lambda>(i, c). fdc_request_id c = Some (request_id (delay_payload m))) (claims webhook_db)
     = [(100, verifying_claim)]"
  by (simp add: webhook_db_def delay_payload_def verifying_claim_def approved_claim_def)

lemma webhook_db_policy:
  "policies webhook_db (policy_id verifying_claim)
     = Some (active_policy \<lparr> policy_status := PAYOUT_PENDING \<rparr>)"
  by (simp add: webhook_db_def engine_db_def verifying_claim_def approved_claim_def)

theorem webhook_threshold_decision_witness:
  "filter (\<lambda>(i, c). fdc_request_id c = Some (request_id (delay_payload 120))) (claims webhook_db)
     = [(100, verifying_claim)]
   \<and> attestation_type (delay_payload 120) = ''Web2Json''
   \<and> policies webhook_db (policy_id verifying_claim)
       = Some (active_policy \<lparr> policy_status := PAYOUT_PENDING \<rparr>)
   \<and> map_option status (get_claim (fst (fdc_finalization_webhook webhook_db (delay_payload 120))) 100)
       = Some APPROVED
   \<and> map_option status (get_claim (fst (fdc_finalization_webhook webhook_db (delay_payload 119))) 100)
       = Some REJECTED
   \<and> map_option rejection_reason
        (get_claim (fst (fdc_finalization_webhook webhook_db (delay_payload 95))) 100)
       = Some (Some ''Delay of 95 minutes below threshold'')"
proof -
  have t: "attestation_type (delay_payload m) = ''Web2Json''" for m
    by (simp add: delay_payload_def)
  have d: "payload_delay_minutes (delay_payload m) = m" for m
    by (simp add: payload_delay_minutes_def delay_payload_def)
  have th: "delay_threshold_minutes (active_policy \<lparr> policy_status := PAYOUT_PENDING \<rparr>) = 120"
    by (simp add: active_policy_def)
  have a: "map_option status
             (get_claim (fst (fdc_finalization_webhook webhook_db (delay_payload 120))) 100)
           = Some APPROVED"
    using webhook_threshold_decision [OF webhook_db_rows t webhook_db_policy, of 120] d th
    by auto
  have b: "map_option status
             (get_claim (fst (fdc_finalization_webhook webhook_db (delay_payload 119))) 100)
           = Some REJECTED"
    using webhook_threshold_decision [OF webhook_db_rows t webhook_db_policy, of 119] d th
    by auto
  have c: "map_option rejection_reason
             (get_claim (fst (fdc_finalization_webhook webhook_db (delay_payload 95))) 100)
           = Some (Some ''Delay of 95 minutes below threshold'')"
    using webhook_threshold_decision [OF webhook_db_rows t webhook_db_policy, of 95] d th
      str_int_95
    by auto
  from webhook_db_rows t webhook_db_policy a b c show ?thesis by simp
qed

text \<open>
  C1 as stated fails: with a delay of 95 against a threshold of 120 the claim is
  \<open>REJECTED\<close>, and the reason cites 95 but not 120.
\<close>

theorem rejection_reason_threshold_counterexample:
  "payload_delay_minutes (delay_payload 95) = 95
   \<and> map_option delay_threshold_minutes (policies webhook_db (policy_id verifying_claim))
       = Some 120
   \<and> map_option status (get_claim (fst (fdc_finalization_webhook webhook_db (delay_payload 95))) 100)
       = Some REJECTED
   \<and> map_option rejection_reason
        (get_claim (fst (fdc_finalization_webhook webhook_db (delay_payload 95))) 100)
       = Some (Some ''Delay of 95 minutes below threshold'')
   \<and> sublist ''95'' ''Delay of 95 minutes below threshold''
   \<and> \<not> sublist ''120'' ''Delay of 95 minutes below threshold''"
proof -
  have d: "payload_delay_minutes (delay_payload 95) = 95"
    by (simp add: payload_delay_minutes_def delay_payload_def)
  have r: "fdc_finalization_webhook webhook_db (delay_payload 95)
           = (put_claim webhook_db 100
                (verifying_claim \<lparr> fdc_merkle_root := Some ''0xaa'',
                    fdc_proof_data := Some (WebhookResponse
                                              \<lparr> result_entry = Some [(''delay_minutes'', 95)] \<rparr>),
                    fdc_verified := True,
                    status := REJECTED,
                    rejection_reason := Some ''Delay of 95 minutes below threshold'' \<rparr>),
              Inr \<lparr> processed_status = ''processed'', processed_claim_id = 100,
                    claim_status = REJECTED \<rparr>)"
    using webhook_db_rows [of 95] webhook_db_policy
    by (simp add: fdc_finalization_webhook_def d str_int_95 active_policy_def Let_def)
       (simp add: delay_payload_def)
  have s1: "sublist ''95'' ''Delay of 95 minutes below threshold''"
    by code_simp
  have s2: "\<not> sublist ''120'' ''Delay of 95 minutes below threshold''"
    by code_simp
  show ?thesis
    by (simp add: d r webhook_db_policy active_policy_def s1 s2)
qed

lemma webhook_db_claim: "get_claim webhook_db 100 = Some verifying_claim"
  by (simp add: get_claim_def webhook_db_def)

text \<open>
  The engine's own verification makes no comparison with the threshold: with a proof
  that verifies, a response reporting 95 minutes and a threshold of 120, the claim is
  \<open>APPROVED\<close>.
\<close>

lemma verify_claim_with_fdc_ignores_delay:
  "get_response_data finalized_fdc = Some [(''delay_minutes'', 95)]
   \<and> map_option delay_threshold_minutes (policies webhook_db (policy_id verifying_claim))
       = Some 120
   \<and> map_option status (get_claim (fst (verify_claim_with_fdc webhook_db finalized_fdc 100)) 100)
       = Some APPROVED"
  using webhook_db_claim webhook_db_policy
  by (simp add: verify_claim_with_fdc_def start_verification_def attest_claim_def
        verify_proof_def finalized_fdc_def active_policy_def Let_def)

subsection \<open>Immutability of the payout amount\<close>

lemma unique_claim_ids_put_claim [simp]:
  "unique_claim_ids (put_claim s i c) = unique_claim_ids s"
  by (auto simp: unique_claim_ids_def put_claim_def distinct_update
      dest: arg_cong [where f = set] simp: AList.update_keys)

lemma unique_claim_ids_other_tables [simp]:
  "unique_claim_ids (s \<lparr> policies := ps \<rparr>) = unique_claim_ids s"
  "unique_claim_ids (s \<lparr> pools := qs \<rparr>) = unique_claim_ids s"
  "unique_claim_ids (s \<lparr> pool_transactions := ts \<rparr>) = unique_claim_ids s"
  "unique_claim_ids (mark_policy_paid s p a addr) = unique_claim_ids s"
  by (simp_all add: unique_claim_ids_def mark_policy_paid_def split: option.splits)

lemma payout_amount_of_put_claim [simp]:
  "payout_amount_of (put_claim s i c) j
     = (if j = i then Some (payout_amount c) else payout_amount_of s j)"
  by (simp add: payout_amount_of_def)

lemma payout_amount_of_other_tables [simp]:
  "payout_amount_of (s \<lparr> policies := ps \<rparr>) = payout_amount_of s"
  "payout_amount_of (s \<lparr> pools := qs \<rparr>) = payout_amount_of s"
  "payout_amount_of (s \<lparr> pool_transactions := ts \<rparr>) = payout_amount_of s"
  "payout_amount_of (mark_policy_paid s p a addr) = payout_amount_of s"
  by (simp_all add: payout_amount_of_def fun_eq_iff)

lemma payout_amount_of_claim:
  "get_claim s i = Some c \<Longrightarrow> payout_amount_of s i = Some (payout_amount c)"
  by (simp add: payout_amount_of_def)

lemma pool_operations_keep_claims:
  "claims (fst (pool_process_payout s pool_id amount clm usr addr)) = claims s"
  "claims (fst (deposit_premium s pool_id amount pol usr txh blk from_addr)) = claims s"
  by (simp_all add: pool_process_payout_def deposit_premium_def Let_def split: option.splits)

lemma pool_process_payout_keeps:
  "unique_claim_ids (fst (pool_process_payout s pool_id amount clm usr addr)) = unique_claim_ids s"
  "payout_amount_of (fst (pool_process_payout s pool_id amount clm usr addr)) = payout_amount_of s"
  by (simp_all add: unique_claim_ids_def payout_amount_of_def get_claim_def fun_eq_iff
        pool_operations_keep_claims)

lemma deposit_premium_keeps:
  "unique_claim_ids (fst (deposit_premium s pool_id amount pol usr txh blk from_addr))
     = unique_claim_ids s"
  "payout_amount_of (fst (deposit_premium s pool_id amount pol usr txh blk from_addr))
     = payout_amount_of s"
  by (simp_all add: unique_claim_ids_def payout_amount_of_def get_claim_def fun_eq_iff
        pool_operations_keep_claims)

lemma initiate_claim_keeps:
  "unique_claim_ids (fst (initiate_claim s new_id num pol_id usr_id ev val addr))
     = unique_claim_ids s"
  "payout_amount_of s i = Some a \<Longrightarrow>
   payout_amount_of (fst (initiate_claim s new_id num pol_id usr_id ev val addr)) i = Some a"
  by (auto simp: initiate_claim_def Let_def payout_amount_of_def split: option.splits)

lemma start_verification_keeps:
  "unique_claim_ids (fst (start_verification s clm_id)) = unique_claim_ids s"
  "payout_amount_of (fst (start_verification s clm_id)) = payout_amount_of s"
  "start_verification s clm_id = (s', Inr (claim, policy)) \<Longrightarrow>
   payout_amount_of s' clm_id = Some (payout_amount claim)"
  by (auto simp: start_verification_def Let_def fun_eq_iff payout_amount_of_claim
      split: option.splits)

lemma attest_claim_keeps:
  "unique_claim_ids (fst (attest_claim s fdc clm_id claim)) = unique_claim_ids s"
  "payout_amount_of s clm_id = Some (payout_amount claim) \<Longrightarrow>
   payout_amount_of (fst (attest_claim s fdc clm_id claim)) = payout_amount_of s"
  by (auto simp: attest_claim_def attestation_failed_def Let_def fun_eq_iff
      split: sum.splits)

lemma verify_claim_with_fdc_keeps:
  "unique_claim_ids (fst (verify_claim_with_fdc s fdc clm_id)) = unique_claim_ids s"
  "payout_amount_of (fst (verify_claim_with_fdc s fdc clm_id)) = payout_amount_of s"
proof -
  obtain s' r where sv: "start_verification s clm_id = (s', r)"
    by (cases "start_verification s clm_id")
  have u: "unique_claim_ids s' = unique_claim_ids s"
    using start_verification_keeps(1) [of s clm_id] sv by simp
  have p: "payout_amount_of s' = payout_amount_of s"
    using start_verification_keeps(2) [of s clm_id] sv by simp
  show "unique_claim_ids (fst (verify_claim_with_fdc s fdc clm_id)) = unique_claim_ids s"
    using sv u by (cases r) (auto simp: verify_claim_with_fdc_def attest_claim_keeps(1))
  show "payout_amount_of (fst (verify_claim_with_fdc s fdc clm_id)) = payout_amount_of s"
  proof (cases r)
    case (Inl e)
    with sv p show ?thesis by (simp add: verify_claim_with_fdc_def)
  next
    case (Inr cp)
    obtain claim policy where cp: "cp = (claim, policy)" by (cases cp)
    from sv Inr cp have "payout_amount_of s' clm_id = Some (payout_amount claim)"
      by (simp add: start_verification_keeps(3))
    then have "payout_amount_of (fst (attest_claim s' fdc clm_id claim)) = payout_amount_of s'"
      by (rule attest_claim_keeps(2))
    with sv Inr cp p show ?thesis by (simp add: verify_claim_with_fdc_def)
  qed
qed

lemma verify_claim_keeps:
  "unique_claim_ids (fst (verify_claim s fdc user clm_id)) = unique_claim_ids s"
  "payout_amount_of (fst (verify_claim s fdc user clm_id)) = payout_amount_of s"
  using verify_claim_with_fdc_keeps [of s fdc clm_id]
  by (auto simp: verify_claim_def split: option.splits prod.splits sum.splits)

lemma process_payout_keeps:
  "unique_claim_ids (fst (process_payout s price clm_id pool_id)) = unique_claim_ids s"
  "payout_amount_of (fst (process_payout s price clm_id pool_id)) = payout_amount_of s"
proof -
  have k: "unique_claim_ids s2 = unique_claim_ids s1 \<and> payout_amount_of s2 = payout_amount_of s1"
    if "pool_process_payout s1 pool_id amount clm_id usr addr = (s2, r)" for s1 s2 amount usr addr r
    using pool_process_payout_keeps [of s1 pool_id amount clm_id usr addr] that by simp
  show "unique_claim_ids (fst (process_payout s price clm_id pool_id)) = unique_claim_ids s"
    by (auto simp: process_payout_def payout_failed_def Let_def
        split: option.splits sum.splits prod.splits dest: k)
  show "payout_amount_of (fst (process_payout s price clm_id pool_id)) = payout_amount_of s"
    by (auto simp: process_payout_def payout_failed_def Let_def fun_eq_iff payout_amount_of_claim
        split: option.splits sum.splits prod.splits dest!: k)
qed

lemma selected_row_is_claim:
  assumes "unique_claim_ids s"
    and "filter sel (claims s) = [(i, c)]"
  shows "get_claim s i = Some c"
proof -
  have "(i, c) \<in> set (filter sel (claims s))"
    using assms(2) by simp
  then have "(i, c) \<in> set (claims s)"
    by simp
  with assms(1) show ?thesis
    by (simp add: get_claim_def unique_claim_ids_def)
qed

lemma fdc_finalization_webhook_keeps:
  "unique_claim_ids (fst (fdc_finalization_webhook s payload)) = unique_claim_ids s"
  "unique_claim_ids s \<Longrightarrow>
   payout_amount_of (fst (fdc_finalization_webhook s payload)) = payout_amount_of s"
proof -
  show "unique_claim_ids (fst (fdc_finalization_webhook s payload)) = unique_claim_ids s"
    by (auto simp: fdc_finalization_webhook_def Let_def split: list.splits option.splits)
  assume u: "unique_claim_ids s"
  show "payout_amount_of (fst (fdc_finalization_webhook s payload)) = payout_amount_of s"
    by (auto simp: fdc_finalization_webhook_def Let_def fun_eq_iff
        split: list.splits option.splits
        dest!: selected_row_is_claim [OF u] payout_amount_of_claim)
qed

lemma apply_operation_keeps:
  assumes "unique_claim_ids s" and "payout_amount_of s i = Some a"
  shows "unique_claim_ids (apply_operation s op)
       \<and> payout_amount_of (apply_operation s op) i = Some a"
  using assms
  by (cases op)
     (simp_all add: initiate_claim_keeps verify_claim_with_fdc_keeps verify_claim_keeps
        fdc_finalization_webhook_keeps process_payout_keeps deposit_premium_keeps
        pool_process_payout_keeps)

lemma run_keeps:
  assumes "unique_claim_ids s" and "payout_amount_of s i = Some a"
  shows "unique_claim_ids (run s ops) \<and> payout_amount_of (run s ops) i = Some a"
  using assms unfolding run_def
proof (induction ops arbitrary: s)
  case Nil
  then show ?case by simp
next
  case (Cons op ops)
  then show ?case using apply_operation_keeps [of s i a op] by simp
qed

text \<open>
  C5. A claim created by \<open>initiate_claim\<close> carries the policy's coverage amount as its
  payout amount, and after any sequence of operations (verification by the engine or
  through the API, the finalization webhook, payout, pool credits and debits, further
  initiations) the claim is still there with that payout amount; so the amount seen
  when the claim is \<open>PAID\<close> is the one recorded when it was \<open>INITIATED\<close>.
\<close>

theorem payout_amount_immutable:
  assumes "unique_claim_ids s"
    and "policies s pol_id = Some policy"
    and "initiate_claim s new_id num pol_id usr_id ev val addr = (s0, Inr claim)"
  shows "payout_amount claim = coverage_amount policy
       \<and> (\<forall>ops. \<exists>claim'. get_claim (run s0 ops) new_id = Some claim'
                 \<and> payout_amount claim' = coverage_amount policy)"
proof -
  from assms(2,3) have a: "payout_amount claim = coverage_amount policy"
    by (auto simp: initiate_claim_def Let_def split: if_splits option.splits)
  from assms(2,3) have g: "get_claim s0 new_id = Some claim"
    by (auto simp: initiate_claim_def Let_def split: if_splits option.splits)
  have u: "unique_claim_ids s0"
    using initiate_claim_keeps(1) [of s new_id num pol_id usr_id ev val addr] assms(1,3)
    by simp
  have p: "payout_amount_of s0 new_id = Some (coverage_amount policy)"
    using g a by (simp add: payout_amount_of_def)
  have "\<exists>claim'. get_claim (run s0 ops) new_id = Some claim'
          \<and> payout_amount claim' = coverage_amount policy" for ops
    using run_keeps [OF u p, of ops] by (auto simp: payout_amount_of_def)
  with a show ?thesis by blast
qed

theorem payout_amount_immutable_witness:
  "unique_claim_ids engine_db
   \<and> policies engine_db 11 = Some active_policy
   \<and> fst (initiate_claim engine_db 101 ''CLM-261104-0000AA'' 11 7 ''flight_delayed'' None ''0xU7'')
       = initiated_db
   \<and> \<not> isl (snd (initiate_claim engine_db 101 ''CLM-261104-0000AA'' 11 7 ''flight_delayed''
                      None ''0xU7''))
   \<and> coverage_amount active_policy = 500
   \<and> map_option payout_amount
        (get_claim (run initiated_db
                      [VerifyClaimWithFdc finalized_fdc 101, ProcessPayout (Inr 1) 101 3]) 101)
       = Some 500
   \<and> map_option status
        (get_claim (run initiated_db
                      [VerifyClaimWithFdc finalized_fdc 101, ProcessPayout (Inr 1) 101 3]) 101)
       = Some PAID"
proof -
  have u: "unique_claim_ids engine_db"
    by (simp add: unique_claim_ids_def engine_db_def)
  have pol: "policies engine_db 11 = Some active_policy"
    by (simp add: engine_db_def)
  have fresh: "get_claim engine_db 101 = None"
    by (simp add: get_claim_def engine_db_def)
  have ok: "\<not> isl (snd (initiate_claim engine_db 101 ''CLM-261104-0000AA'' 11 7
                      ''flight_delayed'' None ''0xU7''))"
    using pol fresh by (simp add: initiate_claim_def active_policy_def Let_def)
  then obtain claim where
    i: "initiate_claim engine_db 101 ''CLM-261104-0000AA'' 11 7 ''flight_delayed'' None ''0xU7''
          = (initiated_db, Inr claim)"
    unfolding initiated_db_def
    by (cases "initiate_claim engine_db 101 ''CLM-261104-0000AA'' 11 7 ''flight_delayed''
                 None ''0xU7''"; cases "snd (initiate_claim engine_db 101 ''CLM-261104-0000AA''
                 11 7 ''flight_delayed'' None ''0xU7'')") auto
  have cov: "coverage_amount active_policy = 500"
    by (simp add: active_policy_def)
  have amount: "map_option payout_amount
        (get_claim (run initiated_db
                      [VerifyClaimWithFdc finalized_fdc 101, ProcessPayout (Inr 1) 101 3]) 101)
       = Some 500"
    using payout_amount_immutable [OF u pol i] cov by auto
  have pa: "payout_amount claim = 500"
    using payout_amount_immutable [OF u pol i] cov by simp
  have init: "get_claim initiated_db 101 = Some claim \<and> status claim = INITIATED
              \<and> policy_id claim = 11
              \<and> policies initiated_db 11 = Some (active_policy \<lparr> policy_status := PAYOUT_PENDING \<rparr>)"
    using i pol fresh unfolding initiated_db_def
    by (auto simp: initiate_claim_def active_policy_def Let_def)
  have pool: "pools initiated_db 3 = Some example_pool"
    using i pol fresh unfolding initiated_db_def
    by (simp add: initiate_claim_def active_policy_def Let_def engine_db_pool)
  have paid: "map_option status
        (get_claim (run initiated_db
                      [VerifyClaimWithFdc finalized_fdc 101, ProcessPayout (Inr 1) 101 3]) 101)
       = Some PAID"
    using init pool pa
    by (simp add: run_def verify_claim_with_fdc_def start_verification_def attest_claim_def
          verify_proof_def finalized_fdc_def process_payout_def pool_process_payout_def
          example_pool_def Let_def)
  from u pol i ok cov amount paid show ?thesis by simp
qed

subsection \<open>FDC client: the polling loop ends\<close>

lemma status_map_finalized: "status_map c = ''finalized'' \<longleftrightarrow> c = 3"
  by (simp add: status_map_def)

lemma status_map_failed: "status_map c = ''failed'' \<longleftrightarrow> c = 4"
  by (simp add: status_map_def)

lemma sleep_positive: "0 < poll_interval \<Longrightarrow> sleep poll_interval = poll_interval * 1000000"
  by (simp add: sleep_def)






text \<open>
  A hub that never reports a final status ends the loop with the timeout error.
\<close>

lemma poll_loop_times_out:
  assumes "0 < poll_interval"
    and "\<And>j. getAttestationStatus hub j = Some (c j) \<and> c j \<noteq> 3 \<and> c j \<noteq> 4"
  shows "poll_loop hub rid ts poll_interval deadline k now
           = Some (Inl (FDCAttestationError (DidNotFinalize rid ts)))"
proof (induction "nat (deadline - now)" arbitrary: k now rule: less_induct)
  case less
  show ?case
  proof (cases "now < deadline")
    case False
    then show ?thesis
      by (subst poll_loop.simps) simp
  next
    case True
    let ?now' = "now + int (call_duration hub k) + sleep poll_interval"
    have "nat (deadline - ?now') < nat (deadline - now)"
      using True assms(1) by (simp add: sleep_positive)
    from less [OF this] True assms(2) [of k] show ?thesis
      by (subst poll_loop.simps)
         (simp add: get_request_status_def status_map_finalized status_map_failed)
  qed
qed

lemma pending_hub_times_out:
  "poll_until_finalized pending_hub ''0x02'' 0 180 10
     = Some (Inl (FDCAttestationError (DidNotFinalize ''0x02'' 180)))"
  unfolding poll_until_finalized_def
  by (rule poll_loop_times_out [where c = "\<lambda>j. 2"]) (simp_all add: pending_hub_def)


end
